theory Spec2Isabelle
  imports Main "HOL-Library.Word"
begin

unbundle bit_operations_syntax

section \<open>Credential store\<close>

text \<open>
  The application hashes passwords with
  \<^verbatim>\<open>generate_password_hash(form.password.data, method='pbkdf2:sha256', salt_length=8)\<close>
  and verifies them with \<^verbatim>\<open>check_password_hash(user.password, password)\<close>.
  Both are library calls; the key derivation they select is PBKDF2 with HMAC-SHA-256 as
  the pseudo-random function and one output block. It is modelled here down to the
  compression function, on byte lists, so that the derived key of a concrete password is
  a value that can be computed.
\<close>

type_synonym byte = "8 word"
type_synonym word32 = "32 word"

subsection \<open>SHA-256\<close>

definition K256 :: "word32 list" where
  "K256 =
     [0x428a2f98, 0x71374491, 0xb5c0fbcf, 0xe9b5dba5] @
     [0x3956c25b, 0x59f111f1, 0x923f82a4, 0xab1c5ed5] @
     [0xd807aa98, 0x12835b01, 0x243185be, 0x550c7dc3] @
     [0x72be5d74, 0x80deb1fe, 0x9bdc06a7, 0xc19bf174] @
     [0xe49b69c1, 0xefbe4786, 0x0fc19dc6, 0x240ca1cc] @
     [0x2de92c6f, 0x4a7484aa, 0x5cb0a9dc, 0x76f988da] @
     [0x983e5152, 0xa831c66d, 0xb00327c8, 0xbf597fc7] @
     [0xc6e00bf3, 0xd5a79147, 0x06ca6351, 0x14292967] @
     [0x27b70a85, 0x2e1b2138, 0x4d2c6dfc, 0x53380d13] @
     [0x650a7354, 0x766a0abb, 0x81c2c92e, 0x92722c85] @
     [0xa2bfe8a1, 0xa81a664b, 0xc24b8b70, 0xc76c51a3] @
     [0xd192e819, 0xd6990624, 0xf40e3585, 0x106aa070] @
     [0x19a4c116, 0x1e376c08, 0x2748774c, 0x34b0bcb5] @
     [0x391c0cb3, 0x4ed8aa4a, 0x5b9cca4f, 0x682e6ff3] @
     [0x748f82ee, 0x78a5636f, 0x84c87814, 0x8cc70208] @
     [0x90befffa, 0xa4506ceb, 0xbef9a3f7, 0xc67178f2]"

definition H256 :: "word32 list" where
  "H256 = [0x6a09e667, 0xbb67ae85, 0x3c6ef372, 0xa54ff53a] @
          [0x510e527f, 0x9b05688c, 0x1f83d9ab, 0x5be0cd19]"

definition Ch :: "word32 \<Rightarrow> word32 \<Rightarrow> word32 \<Rightarrow> word32" where
  "Ch x y z = (x AND y) XOR (NOT x AND z)"

definition Maj :: "word32 \<Rightarrow> word32 \<Rightarrow> word32 \<Rightarrow> word32" where
  "Maj x y z = (x AND y) XOR (x AND z) XOR (y AND z)"

definition bsig0 :: "word32 \<Rightarrow> word32" where
  "bsig0 x = word_rotr 2 x XOR word_rotr 13 x XOR word_rotr 22 x"

definition bsig1 :: "word32 \<Rightarrow> word32" where
  "bsig1 x = word_rotr 6 x XOR word_rotr 11 x XOR word_rotr 25 x"

definition ssig0 :: "word32 \<Rightarrow> word32" where
  "ssig0 x = word_rotr 7 x XOR word_rotr 18 x XOR drop_bit 3 x"

definition ssig1 :: "word32 \<Rightarrow> word32" where
  "ssig1 x = word_rotr 17 x XOR word_rotr 19 x XOR drop_bit 10 x"

text \<open>The \<open>k\<close> low-order bytes of a number, most significant first.\<close>

fun be_bytes :: "nat \<Rightarrow> nat \<Rightarrow> byte list" where
  "be_bytes 0 n = []"
| "be_bytes (Suc k) n = be_bytes k (n div 256) @ [word_of_nat n]"

text \<open>
  Padding: the byte \<open>0x80\<close>, zero bytes up to 56 modulo 64, and the bit length of the
  message as eight bytes.
\<close>

definition sha256_pad :: "byte list \<Rightarrow> byte list" where
  "sha256_pad msg =
     msg @ [0x80] @ replicate ((119 - length msg mod 64) mod 64) 0 @ be_bytes 8 (8 * length msg)"

fun be32s :: "byte list \<Rightarrow> word32 list" where
  "be32s (a # b # c # d # rest) =
     (push_bit 24 (ucast a) OR push_bit 16 (ucast b) OR push_bit 8 (ucast c) OR ucast d)
       # be32s rest"
| "be32s _ = []"

text \<open>The message schedule: \<open>n\<close> further words appended to the ones already there.\<close>

fun schedule :: "nat \<Rightarrow> word32 list \<Rightarrow> word32 list" where
  "schedule 0 w = w"
| "schedule (Suc n) w =
     (let t = length w
      in schedule n
           (w @ [ssig1 (w ! (t - 2)) + w ! (t - 7) + ssig0 (w ! (t - 15)) + w ! (t - 16)]))"

fun round256 :: "word32 list \<Rightarrow> word32 \<times> word32 \<Rightarrow> word32 list" where
  "round256 [a, b, c, d, e, f, g, h] (k, w) =
     (let t1 = h + bsig1 e + Ch e f g + k + w;
          t2 = bsig0 a + Maj a b c
      in [t1 + t2, a, b, c, d + t1, e, f, g])"
| "round256 st _ = st"

definition compress :: "word32 list \<Rightarrow> byte list \<Rightarrow> word32 list" where
  "compress hs block =
     map2 (+) hs (foldl round256 hs (zip K256 (schedule 48 (be32s block))))"

function sha256_blocks :: "word32 list \<Rightarrow> byte list \<Rightarrow> word32 list" where
  "sha256_blocks hs bs =
     (if length bs < 64 then hs else sha256_blocks (compress hs (take 64 bs)) (drop 64 bs))"
  by pat_completeness auto
termination
  by (relation "measure (\<lambda>(hs, bs). length bs)") auto

declare sha256_blocks.simps [simp del]

definition word32_bytes :: "word32 \<Rightarrow> byte list" where
  "word32_bytes w =
     [ucast (drop_bit 24 w), ucast (drop_bit 16 w), ucast (drop_bit 8 w), ucast w]"

definition sha256 :: "byte list \<Rightarrow> byte list" where
  "sha256 msg = concat (map word32_bytes (sha256_blocks H256 (sha256_pad msg)))"

subsection \<open>HMAC and PBKDF2\<close>

text \<open>
  HMAC brings its key to the block size of the hash (64 bytes) first: a longer key is
  replaced by its digest, and the result is filled up with zero bytes.
\<close>

definition hmac_block_key :: "byte list \<Rightarrow> byte list" where
  "hmac_block_key key =
     (let k = (if length key > 64 then sha256 key else key)
      in k @ replicate (64 - length k) 0)"

definition hmac_sha256 :: "byte list \<Rightarrow> byte list \<Rightarrow> byte list" where
  "hmac_sha256 key msg =
     (let k = hmac_block_key key
      in sha256 (map (\<lambda>b. b XOR 0x5c) k @ sha256 (map (\<lambda>b. b XOR 0x36) k @ msg)))"

text \<open>
  One block of PBKDF2: \<open>U\<^sub>1 = PRF (P, S || INT 1)\<close>, \<open>U\<^sub>i = PRF (P, U\<^sub>i\<^sub>-\<^sub>1)\<close>, and the
  derived key is the exclusive or of all \<open>U\<^sub>i\<close>.
\<close>

fun pbkdf2_rounds :: "byte list \<Rightarrow> nat \<Rightarrow> byte list \<Rightarrow> byte list \<Rightarrow> byte list" where
  "pbkdf2_rounds key 0 u t = t"
| "pbkdf2_rounds key (Suc n) u t =
     (let u' = hmac_sha256 key u in pbkdf2_rounds key n u' (map2 (XOR) t u'))"

definition pbkdf2_hmac_sha256 :: "byte list \<Rightarrow> byte list \<Rightarrow> nat \<Rightarrow> byte list" where
  "pbkdf2_hmac_sha256 password salt iterations =
     (let u1 = hmac_sha256 password (salt @ [0, 0, 0, 1])
      in pbkdf2_rounds password (iterations - 1) u1 u1)"

subsection \<open>Password hashes\<close>

definition hexdigit :: "nat \<Rightarrow> char" where
  "hexdigit n = ''0123456789abcdef'' ! n"

definition hex :: "byte list \<Rightarrow> string" where
  "hex bs = concat (map (\<lambda>b. [hexdigit (unat b div 16), hexdigit (unat b mod 16)]) bs)"

text \<open>
  A Python \<open>str\<close> is modelled by its UTF-8 encoding, a \<open>string\<close> of bytes; two strings
  differ exactly when their encodings do.
\<close>

definition encode :: "string \<Rightarrow> byte list" where
  "encode s = map of_char s"

text \<open>
  The stored hash is the text \<^verbatim>\<open>pbkdf2:sha256:<iterations>$<salt>$<hex digest>\<close>. Its three
  parts are kept as the fields of a record. The salt is drawn at random by the library
  (eight characters here); the model takes it as an argument. The iteration count is the
  library's default, a constant of the installed release; no result below depends on
  its value.
\<close>

record pwhash =
  pw_iterations :: nat
  pw_salt :: string
  pw_hashval :: string

definition DEFAULT_PBKDF2_ITERATIONS :: nat where
  "DEFAULT_PBKDF2_ITERATIONS = 260000"

definition hash_internal :: "nat \<Rightarrow> string \<Rightarrow> string \<Rightarrow> string" where
  "hash_internal iterations salt password =
     hex (pbkdf2_hmac_sha256 (encode password) (encode salt) iterations)"

definition generate_password_hash :: "string \<Rightarrow> string \<Rightarrow> pwhash" where
  "generate_password_hash password salt =
     \<lparr>pw_iterations = DEFAULT_PBKDF2_ITERATIONS, pw_salt = salt,
      pw_hashval = hash_internal DEFAULT_PBKDF2_ITERATIONS salt password\<rparr>"

definition check_password_hash :: "pwhash \<Rightarrow> string \<Rightarrow> bool" where
  "check_password_hash pwhash password =
     (hash_internal (pw_iterations pwhash) (pw_salt pwhash) password = pw_hashval pwhash)"

section \<open>Data model\<close>

text \<open>
  The three tables of \<^verbatim>\<open>app.py\<close>. A row is a record of its columns; the relationships
  (\<open>author\<close>, \<open>parent_project\<close>, \<open>comment_author\<close>) are the foreign-key columns, which
  are nullable as declared. Column names carry the table name as a prefix.
\<close>

record user =
  user_id :: nat
  user_email :: string
  user_password :: pwhash
  user_name :: string

record project =
  project_id :: nat
  project_author_id :: "nat option"
  project_title :: string
  project_subtitle :: string
  project_date :: string
  project_body :: string
  project_img_url :: string

record comment =
  comment_id :: nat
  comment_project_id :: "nat option"
  comment_author_id :: "nat option"
  comment_text :: string

text \<open>
  The state a request runs against: the tables, and the session of the browser that
  sends the request (the logged-in user id, and the flashed messages).
\<close>

record state =
  users :: "user list"
  projects :: "project list"
  comments :: "comment list"
  session_user_id :: "nat option"
  flashes :: "string list"

text \<open>\<^verbatim>\<open>db.create_all()\<close> on a new database, and a browser without a session.\<close>

definition create_all :: state where
  "create_all = \<lparr>users = [], projects = [], comments = [], session_user_id = None, flashes = []\<rparr>"

subsection \<open>Queries and commits\<close>

text \<open>\<^verbatim>\<open>Model.query.get(id)\<close> and \<^verbatim>\<open>User.query.filter_by(email=...).first()\<close>.\<close>

definition get_user :: "state \<Rightarrow> nat \<Rightarrow> user option" where
  "get_user s uid = find (\<lambda>u. user_id u = uid) (users s)"

definition get_project :: "state \<Rightarrow> nat \<Rightarrow> project option" where
  "get_project s pid = find (\<lambda>p. project_id p = pid) (projects s)"

definition first_user_by_email :: "state \<Rightarrow> string \<Rightarrow> user option" where
  "first_user_by_email s e = find (\<lambda>u. user_email u = e) (users s)"

text \<open>The primary key given to a new row: one more than the largest key in the table.\<close>

definition next_id :: "nat list \<Rightarrow> nat" where
  "next_id ids = Suc (foldr max ids 0)"

datatype error = AttributeError | IntegrityError | UnmappedInstanceError

text \<open>
  \<^verbatim>\<open>db.session.add(row); db.session.commit()\<close>. The commit raises \<open>IntegrityError\<close> when
  the row breaks a \<^verbatim>\<open>unique=True\<close> column (\<open>users.email\<close>, \<open>projects.title\<close>); nothing is
  written then.
\<close>

definition add_user :: "state \<Rightarrow> string \<Rightarrow> string \<Rightarrow> pwhash \<Rightarrow> error + state \<times> user" where
  "add_user s e n pw =
     (if e \<in> set (map user_email (users s)) then Inl IntegrityError
      else let new_user = \<lparr>user_id = next_id (map user_id (users s)), user_email = e,
                            user_password = pw, user_name = n\<rparr>
           in Inr (s\<lparr>users := users s @ [new_user]\<rparr>, new_user))"

definition add_project :: "state \<Rightarrow> project \<Rightarrow> error + state" where
  "add_project s p =
     (if project_title p \<in> set (map project_title (projects s)) then Inl IntegrityError
      else Inr (s\<lparr>projects := projects s
                    @ [p\<lparr>project_id := next_id (map project_id (projects s))\<rparr>]\<rparr>))"

definition add_comment :: "state \<Rightarrow> comment \<Rightarrow> state" where
  "add_comment s c =
     s\<lparr>comments := comments s @ [c\<lparr>comment_id := next_id (map comment_id (comments s))\<rparr>]\<rparr>"

text \<open>A commit after the attributes of the loaded row \<open>p\<close> were assigned.\<close>

definition update_project :: "state \<Rightarrow> project \<Rightarrow> error + state" where
  "update_project s p =
     (if project_title p
           \<in> set (map project_title (filter (\<lambda>q. project_id q \<noteq> project_id p) (projects s)))
      then Inl IntegrityError
      else Inr (s\<lparr>projects := map (\<lambda>q. if project_id q = project_id p then p else q)
                                   (projects s)\<rparr>))"

text \<open>
  \<^verbatim>\<open>db.session.delete(row); db.session.commit()\<close>. The \<open>comments\<close> relationship has no
  cascade, so the comments of the deleted project stay, with their reference set to null.
\<close>

definition delete_row :: "state \<Rightarrow> project \<Rightarrow> state" where
  "delete_row s p =
     s\<lparr>projects := filter (\<lambda>q. project_id q \<noteq> project_id p) (projects s),
       comments := map (\<lambda>c. if comment_project_id c = Some (project_id p)
                             then c\<lparr>comment_project_id := None\<rparr> else c) (comments s)\<rparr>"

section \<open>Session and identity\<close>

text \<open>
  \<open>current_user\<close> is the user that \<open>load_user\<close> finds for the id in the session, and
  the anonymous user when the session holds no id or the id has no row. The anonymous
  user has \<open>is_authenticated = False\<close> and no attribute \<open>id\<close>.
\<close>

datatype identity = Anonymous | Authenticated user

definition load_user :: "state \<Rightarrow> nat \<Rightarrow> user option" where
  "load_user s uid = get_user s uid"

definition current_user :: "state \<Rightarrow> identity" where
  "current_user s =
     (case session_user_id s of
        None \<Rightarrow> Anonymous
      | Some uid \<Rightarrow> (case load_user s uid of None \<Rightarrow> Anonymous | Some u \<Rightarrow> Authenticated u))"

fun is_authenticated :: "identity \<Rightarrow> bool" where
  "is_authenticated Anonymous = False"
| "is_authenticated (Authenticated u) = True"

definition login_user :: "state \<Rightarrow> user \<Rightarrow> state" where
  "login_user s u = s\<lparr>session_user_id := Some (user_id u)\<rparr>"

definition logout_user :: "state \<Rightarrow> state" where
  "logout_user s = s\<lparr>session_user_id := None\<rparr>"

definition flash :: "state \<Rightarrow> string \<Rightarrow> state" where
  "flash s msg = s\<lparr>flashes := flashes s @ [msg]\<rparr>"

section \<open>Requests and responses\<close>

text \<open>
  The form classes live in \<^verbatim>\<open>forms.py\<close>, outside \<^verbatim>\<open>app.py\<close>. A form object is its field
  data together with the two facts the handlers ask of it: whether the request submits
  the form, and whether the validators accept the data. Both are inputs of the model.
\<close>

record 'd form =
  is_submitted :: bool
  validate :: bool
  form_data :: 'd

definition validate_on_submit :: "'d form \<Rightarrow> bool" where
  "validate_on_submit f = (is_submitted f \<and> validate f)"

record register_data =
  register_email :: string
  register_password :: string
  register_name :: string

record login_data =
  login_email :: string
  login_password :: string

record create_project_data =
  title :: string
  subtitle :: string
  img_url :: string
  body :: string

type_synonym RegisterForm = "register_data form"
type_synonym LoginForm = "login_data form"
type_synonym CommentForm = "string form"
type_synonym CreateProjectForm = "create_project_data form"

text \<open>
  \<^verbatim>\<open>CreateProjectForm(title=..., subtitle=..., img_url=..., body=...)\<close>: the keyword values
  fill the fields of a form that was not submitted; submitted data wins over them.
\<close>

definition prefilled :: "CreateProjectForm \<Rightarrow> create_project_data \<Rightarrow> CreateProjectForm" where
  "prefilled f d = (if is_submitted f then f else f\<lparr>form_data := d\<rparr>)"

datatype endpoint = Ep_login | Ep_get_all_projects | Ep_show_project nat

datatype page =
    Index_html "project list"
  | Register_html RegisterForm
  | Login_html LoginForm
  | Project_html "project option" CommentForm
  | Contact_html
  | Make_project_html CreateProjectForm bool

text \<open>
  What a handler hands back: a template with its arguments and the current user, a
  redirect, \<^verbatim>\<open>abort(code)\<close>, or an exception that nothing in the application catches.
\<close>

datatype response =
    Render page identity
  | Redirect endpoint
  | Abort nat
  | Raise error

section \<open>Authorization gate\<close>

text \<open>
  \<^verbatim>\<open>if current_user.id != 1: return abort(403)\<close>. Reading \<open>id\<close> from the anonymous user
  raises \<open>AttributeError\<close>.
\<close>

definition admin_only :: "(state \<Rightarrow> state \<times> response) \<Rightarrow> state \<Rightarrow> state \<times> response" where
  "admin_only f s =
     (case current_user s of
        Anonymous \<Rightarrow> (s, Raise AttributeError)
      | Authenticated u \<Rightarrow> if user_id u \<noteq> 1 then (s, Abort 403) else f s)"

section \<open>Request handlers\<close>

definition get_all_projects :: "state \<Rightarrow> state \<times> response" where
  "get_all_projects s = (s, Render (Index_html (projects s)) (current_user s))"

definition register :: "state \<Rightarrow> string \<Rightarrow> RegisterForm \<Rightarrow> state \<times> response" where
  "register s salt form =
     (if validate_on_submit form then
        (case first_user_by_email s (register_email (form_data form)) of
           Some existing \<Rightarrow>
             (flash s ''You've already signed up with that email, log in instead!'',
              Redirect Ep_login)
         | None \<Rightarrow>
             (let hash_and_salted_password =
                    generate_password_hash (register_password (form_data form)) salt
              in case add_user s (register_email (form_data form))
                        (register_name (form_data form)) hash_and_salted_password of
                   Inl e \<Rightarrow> (s, Raise e)
                 | Inr (s', new_user) \<Rightarrow> (login_user s' new_user, Redirect Ep_get_all_projects)))
      else (s, Render (Register_html form) (current_user s)))"

definition login :: "state \<Rightarrow> LoginForm \<Rightarrow> state \<times> response" where
  "login s form =
     (if validate_on_submit form then
        (case first_user_by_email s (login_email (form_data form)) of
           None \<Rightarrow> (flash s ''That email does not exist, please try again.'', Redirect Ep_login)
         | Some u \<Rightarrow>
             if \<not> check_password_hash (user_password u) (login_password (form_data form))
             then (flash s ''Password incorrect, please try again.'', Redirect Ep_login)
             else (login_user s u, Redirect Ep_get_all_projects))
      else (s, Render (Login_html form) (current_user s)))"

definition logout :: "state \<Rightarrow> state \<times> response" where
  "logout s = (logout_user s, Redirect Ep_get_all_projects)"

definition show_project :: "state \<Rightarrow> nat \<Rightarrow> CommentForm \<Rightarrow> state \<times> response" where
  "show_project s pid form =
     (let requested_project = get_project s pid
      in if validate_on_submit form then
           (case current_user s of
              Anonymous \<Rightarrow>
                (flash s ''You need to login or register to comment.'', Redirect Ep_login)
            | Authenticated u \<Rightarrow>
                (let new_comment =
                       \<lparr>comment_id = 0,
                        comment_project_id = map_option project_id requested_project,
                        comment_author_id = Some (user_id u),
                        comment_text = form_data form\<rparr>;
                     s' = add_comment s new_comment
                 in (s', Render (Project_html requested_project form) (current_user s'))))
         else (s, Render (Project_html requested_project form) (current_user s)))"

definition contact :: "state \<Rightarrow> state \<times> response" where
  "contact s = (s, Render Contact_html (current_user s))"

text \<open>
  \<open>today\<close> is \<^verbatim>\<open>date.today().strftime("%B %d, %Y")\<close>, the clock being an input. The author
  of the new project is the current user, whom the gate has shown to be a user row.
\<close>

definition add_new_project :: "state \<Rightarrow> string \<Rightarrow> CreateProjectForm \<Rightarrow> state \<times> response" where
  "add_new_project s0 today form =
     admin_only (\<lambda>s.
       if validate_on_submit form then
         (let new_project =
                \<lparr>project_id = 0,
                 project_author_id =
                   (case current_user s of Anonymous \<Rightarrow> None
                    | Authenticated u \<Rightarrow> Some (user_id u)),
                 project_title = title (form_data form),
                 project_subtitle = subtitle (form_data form),
                 project_date = today,
                 project_body = body (form_data form),
                 project_img_url = img_url (form_data form)\<rparr>
          in case add_project s new_project of
               Inl e \<Rightarrow> (s, Raise e)
             | Inr s' \<Rightarrow> (s', Redirect Ep_get_all_projects))
       else (s, Render (Make_project_html form False) (current_user s))) s0"

definition edit_project :: "state \<Rightarrow> nat \<Rightarrow> CreateProjectForm \<Rightarrow> state \<times> response" where
  "edit_project s0 pid request_form =
     admin_only (\<lambda>s.
       case get_project s pid of
         None \<Rightarrow> (s, Raise AttributeError)
       | Some p \<Rightarrow>
           (let edit_form =
                  prefilled request_form
                    \<lparr>title = project_title p, subtitle = project_subtitle p,
                     img_url = project_img_url p, body = project_body p\<rparr>
            in if validate_on_submit edit_form then
                 (case update_project s
                         (p\<lparr>project_title := title (form_data edit_form),
                            project_subtitle := subtitle (form_data edit_form),
                            project_img_url := img_url (form_data edit_form),
                            project_body := body (form_data edit_form)\<rparr>) of
                    Inl e \<Rightarrow> (s, Raise e)
                  | Inr s' \<Rightarrow> (s', Redirect (Ep_show_project (project_id p))))
               else (s, Render (Make_project_html edit_form True) (current_user s)))) s0"

definition delete_project :: "state \<Rightarrow> nat \<Rightarrow> state \<times> response" where
  "delete_project s0 pid =
     admin_only (\<lambda>s.
       case get_project s pid of
         None \<Rightarrow> (s, Raise UnmappedInstanceError)
       | Some project_to_delete \<Rightarrow>
           (delete_row s project_to_delete, Redirect Ep_get_all_projects)) s0"

section \<open>Sample data\<close>

text \<open>
  A small store for the concrete instances below: the administrator (the first user to
  register), one further user, and one project.
\<close>

definition admin_row :: user where
  "admin_row = \<lparr>user_id = 1, user_email = ''admin@x.com'',
                 user_password = generate_password_hash ''pw'' ''Zp3kQ9vB'',
                 user_name = ''Admin''\<rparr>"

definition reader_row :: user where
  "reader_row = \<lparr>user_id = 2, user_email = ''a@x.com'',
                  user_password = generate_password_hash ''pw'' ''h7Lm2XsT'',
                  user_name = ''A''\<rparr>"

definition project_row :: project where
  "project_row = \<lparr>project_id = 1, project_author_id = Some 1, project_title = ''T1'',
                   project_subtitle = ''first'', project_date = ''November 04, 2026'',
                   project_body = ''text'', project_img_url = ''http://x.com/1.png''\<rparr>"

definition store :: state where
  "store = create_all\<lparr>users := [admin_row, reader_row], projects := [project_row]\<rparr>"

definition as_admin :: state where
  "as_admin = store\<lparr>session_user_id := Some 1\<rparr>"

definition as_reader :: state where
  "as_reader = store\<lparr>session_user_id := Some 2\<rparr>"

definition posted :: "'d \<Rightarrow> 'd form" where
  "posted d = \<lparr>is_submitted = True, validate = True, form_data = d\<rparr>"

definition not_posted :: "'d \<Rightarrow> 'd form" where
  "not_posted d = \<lparr>is_submitted = False, validate = False, form_data = d\<rparr>"

definition project_input :: "string \<Rightarrow> create_project_data" where
  "project_input t = \<lparr>title = t, subtitle = ''second'', img_url = ''http://x.com/2.png'',
                       body = ''more text''\<rparr>"

section \<open>Auxiliary facts\<close>

subsection \<open>Lists and queries\<close>

lemma find_in_set: "find P xs = Some x \<Longrightarrow> x \<in> set xs \<and> P x"
  by (induction xs) (auto split: if_splits)

lemma find_None_map: "(find (\<lambda>x. f x = k) xs = None) = (k \<notin> set (map f xs))"
  by (induction xs) auto

lemma find_map_update:
  "find (\<lambda>q. k q = i) xs = Some p \<Longrightarrow> k p' = i \<Longrightarrow>
     find (\<lambda>q. k q = i) (map (\<lambda>q. if k q = i then p' else q) xs) = Some p'"
  by (induction xs) (auto split: if_splits)

lemma filter_map_update:
  "k p' = i \<Longrightarrow>
     filter (\<lambda>q. k q \<noteq> i) (map (\<lambda>q. if k q = i then p' else q) xs)
       = filter (\<lambda>q. k q \<noteq> i) xs"
  by (induction xs) auto

lemma get_project_id: "get_project s pid = Some p \<Longrightarrow> project_id p = pid"
  unfolding get_project_def by (drule find_in_set) simp

lemma get_project_live: "get_project s pid = Some p \<Longrightarrow> p \<in> set (projects s)"
  unfolding get_project_def by (drule find_in_set) simp

text \<open>An authenticated identity is a row of the user table, found under its own id.\<close>

lemma current_user_live:
  assumes "current_user s = Authenticated u"
  shows "u \<in> set (users s) \<and> get_user s (user_id u) = Some u"
proof -
  from assms obtain uid where uid: "session_user_id s = Some uid" "get_user s uid = Some u"
    by (auto simp: current_user_def load_user_def split: option.splits)
  from uid(2) have "u \<in> set (users s) \<and> user_id u = uid"
    unfolding get_user_def by (rule find_in_set)
  with uid(2) show ?thesis by simp
qed

lemma login_user_current:
  "get_user s (user_id u) = Some u \<Longrightarrow> current_user (login_user s u) = Authenticated u"
  by (simp add: current_user_def login_user_def load_user_def get_user_def)

subsection \<open>The gate\<close>

lemma admin_only_Anonymous:
  "current_user s = Anonymous \<Longrightarrow> admin_only f s = (s, Raise AttributeError)"
  by (simp add: admin_only_def)

lemma admin_only_Authenticated:
  "current_user s = Authenticated u \<Longrightarrow>
     admin_only f s = (if user_id u = 1 then f s else (s, Abort 403))"
  by (simp add: admin_only_def)

text \<open>
  The gate hands the request on exactly for the administrator, and a logged-in user with
  another id gets 403 with the state untouched.
\<close>

lemma admin_only_passes_iff:
  "(\<forall>f. admin_only f s = f s) = (\<exists>u. current_user s = Authenticated u \<and> user_id u = 1)"
proof
  assume pass: "\<forall>f. admin_only f s = f s"
  show "\<exists>u. current_user s = Authenticated u \<and> user_id u = 1"
  proof (cases "current_user s")
    case Anonymous
    from pass have "admin_only (\<lambda>t. (t, Abort 0)) s = (s, Abort 0)" by simp
    with Anonymous show ?thesis by (simp add: admin_only_def)
  next
    case (Authenticated u)
    from pass have "admin_only (\<lambda>t. (t, Abort 0)) s = (s, Abort 0)" by simp
    with Authenticated show ?thesis by (simp add: admin_only_def split: if_splits)
  qed
next
  assume "\<exists>u. current_user s = Authenticated u \<and> user_id u = 1"
  then show "\<forall>f. admin_only f s = f s" by (auto simp: admin_only_def)
qed

lemma admin_only_forbidden:
  assumes "current_user s = Authenticated u" and "user_id u \<noteq> 1"
  shows "add_new_project s today form = (s, Abort 403)"
    and "edit_project s pid form = (s, Abort 403)"
    and "delete_project s pid = (s, Abort 403)"
  using assms(2)
  by (simp_all add: add_new_project_def edit_project_def delete_project_def
      admin_only_Authenticated [OF assms(1)])

subsection \<open>The sample store\<close>

lemmas sample_defs = admin_row_def reader_row_def project_row_def store_def as_admin_def
  as_reader_def create_all_def posted_def not_posted_def project_input_def

lemmas query_defs = get_user_def get_project_def first_user_by_email_def load_user_def
  current_user_def

lemma current_user_store: "current_user store = Anonymous"
  by (simp add: sample_defs query_defs)

lemma current_user_as_admin: "current_user as_admin = Authenticated admin_row"
  by (simp add: as_admin_def store_def create_all_def query_defs admin_row_def)

lemma current_user_as_reader: "current_user as_reader = Authenticated reader_row"
  by (simp add: as_reader_def store_def create_all_def query_defs admin_row_def reader_row_def)

subsection \<open>Key derivation\<close>





lemma hexdigit_inj: "i < 16 \<Longrightarrow> j < 16 \<Longrightarrow> hexdigit i = hexdigit j \<Longrightarrow> i = j"
proof -
  have d: "distinct ''0123456789abcdef''" by simp
  assume "i < 16" "j < 16" "hexdigit i = hexdigit j"
  then show ?thesis
    using d unfolding hexdigit_def
    by (simp add: nth_eq_iff_index_eq del: distinct.simps)
qed

lemma hex_byte_inj:
  fixes a b :: byte
  assumes "hexdigit (unat a div 16) = hexdigit (unat b div 16)"
    and "hexdigit (unat a mod 16) = hexdigit (unat b mod 16)"
  shows "a = b"
proof -
  have la: "unat a < 256" and lb: "unat b < 256"
    using unsigned_less [of a, where 'a = nat] unsigned_less [of b, where 'a = nat]
    by simp_all
  then have "unat a div 16 < 16" "unat b div 16 < 16" by simp_all
  with assms(1) have 1: "unat a div 16 = unat b div 16" by (rule_tac hexdigit_inj)
  have "unat a mod 16 < 16" "unat b mod 16 < 16" by simp_all
  with assms(2) have 2: "unat a mod 16 = unat b mod 16" by (rule_tac hexdigit_inj)
  from 1 2 have "unat a = unat b"
    by (metis div_mult_mod_eq)
  then show ?thesis by (rule unsigned_word_eqI)
qed

lemma hex_inj: "hex xs = hex ys \<Longrightarrow> xs = ys"
proof (induction xs arbitrary: ys)
  case Nil
  then show ?case by (cases ys) (simp_all add: hex_def)
next
  case (Cons x xs)
  then show ?case
    by (cases ys) (auto simp: hex_def dest: hex_byte_inj)
qed

text \<open>Verification succeeds exactly when the two passwords derive the same key.\<close>

lemma check_generate_iff:
  "check_password_hash (generate_password_hash q salt) p
     = (pbkdf2_hmac_sha256 (encode p) (encode salt) DEFAULT_PBKDF2_ITERATIONS
          = pbkdf2_hmac_sha256 (encode q) (encode salt) DEFAULT_PBKDF2_ITERATIONS)"
  by (auto simp: check_password_hash_def generate_password_hash_def hash_internal_def
      dest: hex_inj)





section \<open>The gated handlers and other identities\<close>

text \<open>
  C1. A request to the new-project, edit-project or delete-project handler from a
  browser that is not logged in is expected to end in 403. On the sample store without a
  session the identity is anonymous, and each of the three handlers ends in an uncaught
  \<open>AttributeError\<close> instead, with the state as it was: the gate reads \<open>id\<close> from the
  anonymous user. (For a logged-in user with another id the answer is 403, and the gate
  passes exactly the administrator: \<open>admin_only_forbidden\<close>, \<open>admin_only_passes_iff\<close>.)
\<close>

theorem admin_only_anonymous_raises:
  "current_user store = Anonymous
   \<and> add_new_project store today form = (store, Raise AttributeError)
   \<and> edit_project store 1 form = (store, Raise AttributeError)
   \<and> delete_project store 1 = (store, Raise AttributeError)
   \<and> Raise AttributeError \<noteq> Abort 403"
  by (simp add: add_new_project_def edit_project_def delete_project_def
      admin_only_Anonymous [OF current_user_store] current_user_store)

section \<open>Comments\<close>

text \<open>
  A comment submitted by a logged-in user on an existing project is stored with the id
  of that user, who is a row of the user table, and the id of that project.
\<close>

lemma show_project_comment_live:
  assumes "validate_on_submit form" and "current_user s = Authenticated u"
    and "get_project s pid = Some p"
  shows "comments (fst (show_project s pid form))
           = comments s @ [\<lparr>comment_id = next_id (map comment_id (comments s)),
                             comment_project_id = Some pid,
                             comment_author_id = Some (user_id u),
                             comment_text = form_data form\<rparr>]
         \<and> get_user s (user_id u) = Some u \<and> p \<in> set (projects s)"
  using assms current_user_live [OF assms(2)] get_project_id [OF assms(3)]
    get_project_live [OF assms(3)]
  by (simp add: show_project_def add_comment_def Let_def)

text \<open>
  C2. Every comment the show-project handler stores is expected to reference an existing
  user and an existing project. With the second sample user logged in, a comment
  submitted to project id 7, which the store does not have, is stored all the same: its
  author is user 2, and its project reference is null.
\<close>

theorem comment_on_missing_project:
  "get_project as_reader 7 = None
   \<and> comments (fst (show_project as_reader 7 (posted ''hi'')))
       = [\<lparr>comment_id = 1, comment_project_id = None, comment_author_id = Some 2,
            comment_text = ''hi''\<rparr>]"
  by (simp add: show_project_def current_user_as_reader validate_on_submit_def
      posted_def add_comment_def next_id_def Let_def)
     (simp add: as_reader_def store_def create_all_def get_project_def project_row_def
      reader_row_def)

text \<open>
  C6. A comment submitted while the identity is anonymous, on any project id, leaves the
  comment table as it was; the handler flashes its warning and redirects to the login
  page.
\<close>

theorem show_project_anonymous_comment:
  assumes "validate_on_submit form" and "current_user s = Anonymous"
  shows "show_project s pid form
           = (flash s ''You need to login or register to comment.'', Redirect Ep_login)
         \<and> comments (fst (show_project s pid form)) = comments s"
  using assms by (simp add: show_project_def flash_def)

text \<open>C6 on the sample store, whose browser has no session.\<close>

theorem show_project_anonymous_comment_witness:
  "validate_on_submit (posted ''hi'') \<and> current_user store = Anonymous
   \<and> show_project store 1 (posted ''hi'')
       = (flash store ''You need to login or register to comment.'', Redirect Ep_login)
   \<and> comments (fst (show_project store 1 (posted ''hi''))) = comments store"
proof -
  have 1: "validate_on_submit (posted ''hi'')" by (simp add: validate_on_submit_def posted_def)
  have 2: "current_user store = Anonymous" by (rule current_user_store)
  from show_project_anonymous_comment [OF 1 2, of 1] 1 2 show ?thesis by blast
qed

section \<open>Missing projects\<close>

text \<open>
  C7, as stated: a GET of the show-project handler for an id that the store does not
  have ends in "Not Found". On the sample store, id 5 has no project, and the handler
  answers with the project template and no project; that is not \<open>abort(404)\<close>.
\<close>

theorem show_project_missing_id_counterexample:
  "get_project store 5 = None
   \<and> show_project store 5 (not_posted (''''::string))
       = (store, Render (Project_html None (not_posted (''''::string))) Anonymous)
   \<and> snd (show_project store 5 (not_posted (''''::string))) \<noteq> Abort 404"
proof -
  have "get_project store 5 = None" by (simp add: sample_defs get_project_def)
  then show ?thesis
    by (simp add: show_project_def validate_on_submit_def current_user_store not_posted_def)
qed

text \<open>
  C7, amended: for every project id that the store does not have, a request to the
  show-project handler that submits no form leaves the state as it was and answers with
  the project template, given no project (\<open>None\<close>) and the current user.
\<close>

theorem show_project_missing_id:
  assumes "get_project s pid = None" and "\<not> is_submitted form"
  shows "show_project s pid form = (s, Render (Project_html None form) (current_user s))"
  using assms by (simp add: show_project_def validate_on_submit_def)

text \<open>C7, amended, on the sample store and id 5.\<close>

theorem show_project_missing_id_witness:
  "get_project store 5 = None \<and> \<not> is_submitted (not_posted (''''::string))
   \<and> show_project store 5 (not_posted (''''::string))
       = (store, Render (Project_html None (not_posted (''''::string))) (current_user store))"
proof -
  have 1: "get_project store 5 = None" by (simp add: sample_defs get_project_def)
  have 2: "\<not> is_submitted (not_posted (''''::string))" by (simp add: not_posted_def)
  from show_project_missing_id [OF 1 2] 1 2 show ?thesis by blast
qed

text \<open>
  C10. For the administrator and a project id that the store does not have, the
  delete-project handler raises (\<open>db.session.delete\<close> of \<open>None\<close>) and the edit-project
  handler raises (\<open>project.title\<close> of \<open>None\<close>), whatever the form holds; neither writes
  anything, and neither answers "Not Found".
\<close>

theorem missing_project_raises:
  assumes "current_user s = Authenticated u" and "user_id u = 1"
    and "get_project s pid = None"
  shows "delete_project s pid = (s, Raise UnmappedInstanceError)
       \<and> edit_project s pid form = (s, Raise AttributeError)"
  using assms(2,3)
  by (simp add: delete_project_def edit_project_def admin_only_Authenticated [OF assms(1)])

text \<open>C10 for the sample administrator and id 9.\<close>

theorem missing_project_raises_witness:
  "current_user as_admin = Authenticated admin_row \<and> user_id admin_row = 1
   \<and> get_project as_admin 9 = None
   \<and> delete_project as_admin 9 = (as_admin, Raise UnmappedInstanceError)
   \<and> edit_project as_admin 9 (posted (project_input ''T9'')) = (as_admin, Raise AttributeError)"
proof -
  have 1: "current_user as_admin = Authenticated admin_row" by (rule current_user_as_admin)
  have 2: "user_id admin_row = 1" by (simp add: admin_row_def)
  have 3: "get_project as_admin 9 = None" by (simp add: sample_defs get_project_def)
  from missing_project_raises [OF 1 2 3] 1 2 3 show ?thesis by blast
qed

section \<open>Registration, login and logout\<close>

text \<open>
  C5. When the store holds a user with the submitted email, a registration that passes
  validation adds no user: the tables and the logged-in user stay as they were, the
  handler flashes its warning and redirects to the login page.
\<close>

theorem register_existing_email:
  assumes "validate_on_submit form"
    and "register_email (form_data form) \<in> set (map user_email (users s))"
  shows "register s salt form
           = (flash s ''You've already signed up with that email, log in instead!'',
              Redirect Ep_login)
         \<and> users (fst (register s salt form)) = users s
         \<and> session_user_id (fst (register s salt form)) = session_user_id s"
proof -
  from assms(2) obtain u
    where "first_user_by_email s (register_email (form_data form)) = Some u"
    unfolding first_user_by_email_def
    using find_None_map [of user_email "register_email (form_data form)" "users s"]
    by (cases "find (\<lambda>u. user_email u = register_email (form_data form)) (users s)") auto
  with assms(1) show ?thesis
    by (simp add: register_def flash_def)
qed

text \<open>C5 on the sample store, for the email of its second user.\<close>

theorem register_existing_email_witness:
  "validate_on_submit (posted \<lparr>register_email = ''a@x.com'', register_password = ''pw'',
        register_name = ''A''\<rparr>)
   \<and> ''a@x.com'' \<in> set (map user_email (users store))
   \<and> register store ''c4Tg8WqE'' (posted \<lparr>register_email = ''a@x.com'',
        register_password = ''pw'', register_name = ''A''\<rparr>)
       = (flash store ''You've already signed up with that email, log in instead!'',
          Redirect Ep_login)
   \<and> users (fst (register store ''c4Tg8WqE'' (posted \<lparr>register_email = ''a@x.com'',
        register_password = ''pw'', register_name = ''A''\<rparr>))) = users store"
proof -
  let ?f = "posted \<lparr>register_email = ''a@x.com'', register_password = ''pw'',
        register_name = ''A''\<rparr>"
  have 1: "validate_on_submit ?f" by (simp add: validate_on_submit_def posted_def)
  have 2: "register_email (form_data ?f) \<in> set (map user_email (users store))"
    by (simp add: sample_defs)
  have 3: "''a@x.com'' \<in> set (map user_email (users store))"
    by (simp add: sample_defs)
  from register_existing_email [OF 1 2, of "''c4Tg8WqE''"] 1 3 show ?thesis by blast
qed

text \<open>
  On the sample store, the second user logs in with the registered password and is the
  current user afterwards; a logout makes the identity anonymous again.
\<close>

lemma login_sample:
  "login store (posted \<lparr>login_email = ''a@x.com'', login_password = ''pw''\<rparr>)
     = (as_reader, Redirect Ep_get_all_projects)
   \<and> current_user as_reader = Authenticated reader_row
   \<and> current_user (fst (logout as_reader)) = Anonymous"
proof -
  have 1: "first_user_by_email store ''a@x.com'' = Some reader_row"
    by (simp add: first_user_by_email_def store_def create_all_def admin_row_def reader_row_def)
  have 2: "check_password_hash (user_password reader_row) ''pw''"
    by (simp add: reader_row_def check_generate_iff)
  have 3: "login_user store reader_row = as_reader"
    by (simp add: login_user_def as_reader_def reader_row_def)
  have 4: "current_user (fst (logout as_reader)) = Anonymous"
    by (simp add: logout_def logout_user_def current_user_def)
  have "login store (posted \<lparr>login_email = ''a@x.com'', login_password = ''pw''\<rparr>)
          = (as_reader, Redirect Ep_get_all_projects)"
    using 1 2 3 by (simp add: login_def validate_on_submit_def posted_def)
  with 4 current_user_as_reader show ?thesis by blast
qed

text \<open>
  C9. After \<open>login_user\<close> for any user, and after the login handler whatever it
  decided, logout leaves no user id in the session: the identity is anonymous, and the
  answer is the redirect to the project list.
\<close>

theorem logout_after_login:
  "current_user (fst (logout (login_user s u))) = Anonymous
   \<and> logout (login_user s u) = (logout_user (login_user s u), Redirect Ep_get_all_projects)
   \<and> current_user (fst (logout (fst (login s form)))) = Anonymous
   \<and> snd (logout (fst (login s form))) = Redirect Ep_get_all_projects
   \<and> session_user_id (fst (logout s)) = None"
  by (simp add: logout_def logout_user_def current_user_def)

section \<open>Password verification\<close>




section \<open>Projects\<close>

text \<open>
  C3, as stated: a new project whose title is already stored is turned down with a
  rendered validation error. On the sample store, the administrator submitting a valid
  form with the stored title \<open>T1\<close> gets an uncaught \<open>IntegrityError\<close> from the commit.
\<close>

theorem add_new_project_duplicate_title_counterexample:
  "''T1'' \<in> set (map project_title (projects as_admin))
   \<and> add_new_project as_admin ''November 05, 2026'' (posted (project_input ''T1''))
       = (as_admin, Raise IntegrityError)
   \<and> Raise IntegrityError
       \<noteq> Render (Make_project_html (posted (project_input ''T1'')) False)
            (current_user as_admin)"
proof -
  have "''T1'' \<in> set (map project_title (projects as_admin))" by (simp add: sample_defs)
  then show ?thesis
    by (simp add: add_new_project_def admin_only_Authenticated [OF current_user_as_admin]
        validate_on_submit_def add_project_def posted_def project_input_def admin_row_def)
qed

text \<open>
  C3, amended: when the administrator submits a valid new-project form whose title is
  the title of a stored project, the commit raises \<open>IntegrityError\<close>, which the handler
  does not catch; the state is as it was, so no second project with that title exists.
\<close>

theorem add_new_project_duplicate_title:
  assumes "current_user s = Authenticated u" and "user_id u = 1"
    and "validate_on_submit form"
    and "title (form_data form) \<in> set (map project_title (projects s))"
  shows "add_new_project s today form = (s, Raise IntegrityError)"
  using assms
  by (simp add: add_new_project_def admin_only_Authenticated [OF assms(1)] add_project_def)

text \<open>C3, amended, for the sample administrator and the stored title \<open>T1\<close>.\<close>

theorem add_new_project_duplicate_title_witness:
  "current_user as_admin = Authenticated admin_row \<and> user_id admin_row = 1
   \<and> validate_on_submit (posted (project_input ''T1''))
   \<and> title (form_data (posted (project_input ''T1'')))
       \<in> set (map project_title (projects as_admin))
   \<and> add_new_project as_admin ''November 05, 2026'' (posted (project_input ''T1''))
       = (as_admin, Raise IntegrityError)"
proof -
  have 1: "current_user as_admin = Authenticated admin_row" by (rule current_user_as_admin)
  have 2: "user_id admin_row = 1" by (simp add: admin_row_def)
  have 3: "validate_on_submit (posted (project_input ''T1''))"
    by (simp add: validate_on_submit_def posted_def)
  have 4: "title (form_data (posted (project_input ''T1'')))
             \<in> set (map project_title (projects as_admin))"
    by (simp add: sample_defs)
  from add_new_project_duplicate_title [OF 1 2 3 4] 1 2 3 4 show ?thesis by blast
qed

text \<open>
  C8. For the administrator and a stored project, an edit that passes validation and
  whose commit goes through (no other project has the submitted title) redirects to the
  detail page of that project. Afterwards the project is the old row with title,
  subtitle, image URL and body replaced by the submitted values, so its id, author
  reference and date are the old ones; all other projects, the users, the comments and
  the session are as before.
\<close>

theorem edit_project_overwrites:
  assumes "current_user s = Authenticated u" and "user_id u = 1"
    and "get_project s pid = Some p"
    and "validate_on_submit form"
    and "title (form_data form)
           \<notin> set (map project_title (filter (\<lambda>q. project_id q \<noteq> pid) (projects s)))"
  shows "snd (edit_project s pid form) = Redirect (Ep_show_project pid)
    \<and> get_project (fst (edit_project s pid form)) pid
        = Some (p\<lparr>project_title := title (form_data form),
                  project_subtitle := subtitle (form_data form),
                  project_img_url := img_url (form_data form),
                  project_body := body (form_data form)\<rparr>)
    \<and> map_option project_author_id (get_project (fst (edit_project s pid form)) pid)
        = Some (project_author_id p)
    \<and> map_option project_date (get_project (fst (edit_project s pid form)) pid)
        = Some (project_date p)
    \<and> filter (\<lambda>q. project_id q \<noteq> pid) (projects (fst (edit_project s pid form)))
        = filter (\<lambda>q. project_id q \<noteq> pid) (projects s)
    \<and> users (fst (edit_project s pid form)) = users s
    \<and> comments (fst (edit_project s pid form)) = comments s
    \<and> session_user_id (fst (edit_project s pid form)) = session_user_id s"
proof -
  let ?p' = "p\<lparr>project_title := title (form_data form),
               project_subtitle := subtitle (form_data form),
               project_img_url := img_url (form_data form),
               project_body := body (form_data form)\<rparr>"
  let ?s' = "s\<lparr>projects := map (\<lambda>q. if project_id q = pid then ?p' else q) (projects s)\<rparr>"
  have id: "project_id p = pid" using assms(3) by (rule get_project_id)
  have sub: "is_submitted form" using assms(4) by (simp add: validate_on_submit_def)
  have upd: "update_project s ?p' = Inr ?s'"
    using assms(5) id by (simp add: update_project_def)
  have res: "edit_project s pid form = (?s', Redirect (Ep_show_project pid))"
    using assms(2,3,4) sub id upd
    by (simp add: edit_project_def admin_only_Authenticated [OF assms(1)] prefilled_def)
  have look: "get_project ?s' pid = Some ?p'"
    using assms(3) id unfolding get_project_def
    by (simp add: find_map_update [where k = project_id])
  have rest: "filter (\<lambda>q. project_id q \<noteq> pid) (projects ?s')
                = filter (\<lambda>q. project_id q \<noteq> pid) (projects s)"
    using id by (simp add: filter_map_update [where k = project_id])
  show ?thesis
    unfolding res fst_conv snd_conv look using rest by simp
qed

text \<open>C8 for the sample administrator, who renames project 1 to \<open>T2\<close>.\<close>

theorem edit_project_overwrites_witness:
  "current_user as_admin = Authenticated admin_row \<and> user_id admin_row = 1
   \<and> get_project as_admin 1 = Some project_row
   \<and> validate_on_submit (posted (project_input ''T2''))
   \<and> ''T2'' \<notin> set (map project_title (filter (\<lambda>q. project_id q \<noteq> 1) (projects as_admin)))
   \<and> snd (edit_project as_admin 1 (posted (project_input ''T2''))) = Redirect (Ep_show_project 1)
   \<and> get_project (fst (edit_project as_admin 1 (posted (project_input ''T2'')))) 1
       = Some \<lparr>project_id = 1, project_author_id = Some 1, project_title = ''T2'',
               project_subtitle = ''second'', project_date = ''November 04, 2026'',
               project_body = ''more text'', project_img_url = ''http://x.com/2.png''\<rparr>"
proof -
  let ?f = "posted (project_input ''T2'')"
  have 1: "current_user as_admin = Authenticated admin_row" by (rule current_user_as_admin)
  have 2: "user_id admin_row = 1" by (simp add: admin_row_def)
  have 3: "get_project as_admin 1 = Some project_row" by (simp add: sample_defs get_project_def)
  have 4: "validate_on_submit ?f" by (simp add: validate_on_submit_def posted_def)
  have 5: "title (form_data ?f)
             \<notin> set (map project_title (filter (\<lambda>q. project_id q \<noteq> 1) (projects as_admin)))"
    by (simp add: sample_defs)
  have 6: "''T2'' \<notin> set (map project_title (filter (\<lambda>q. project_id q \<noteq> 1) (projects as_admin)))"
    by (simp add: sample_defs)
  have 7: "project_row\<lparr>project_title := title (form_data ?f),
                  project_subtitle := subtitle (form_data ?f),
                  project_img_url := img_url (form_data ?f),
                  project_body := body (form_data ?f)\<rparr>
       = \<lparr>project_id = 1, project_author_id = Some 1, project_title = ''T2'',
               project_subtitle = ''second'', project_date = ''November 04, 2026'',
               project_body = ''more text'', project_img_url = ''http://x.com/2.png''\<rparr>"
    by (simp add: sample_defs)
  note r = edit_project_overwrites [OF 1 2 3 4 5]
  from r have 8: "snd (edit_project as_admin 1 ?f) = Redirect (Ep_show_project 1)" by blast
  from r have 9: "get_project (fst (edit_project as_admin 1 ?f)) 1
       = Some \<lparr>project_id = 1, project_author_id = Some 1, project_title = ''T2'',
               project_subtitle = ''second'', project_date = ''November 04, 2026'',
               project_body = ''more text'', project_img_url = ''http://x.com/2.png''\<rparr>"
    unfolding 7 by blast
  from 1 2 3 4 6 8 9 show ?thesis by blast
qed

end
